theory Spec2Isabelle
  imports Complex_Main "HOL-Library.Multiset"
begin

section \<open>Insertion-ordered maps\<close>

text \<open>
  A JavaScript \<^verbatim>\<open>Map\<close> iterates its keys in insertion order, and \<^verbatim>\<open>set\<close> on a key
  that is already present replaces the value in place. It is modelled as an association
  list: \<open>map_set\<close> is \<^verbatim>\<open>Map.prototype.set\<close>, \<open>map_get\<close> is \<^verbatim>\<open>get\<close>
  (\<open>None\<close> for \<^verbatim>\<open>undefined\<close>), \<open>map_delete\<close> is \<^verbatim>\<open>delete\<close> and \<open>map_keys\<close> is
  \<^verbatim>\<open>keys()\<close>.
\<close>

type_synonym ('k, 'v) jsmap = "('k \<times> 'v) list"

fun map_set :: "('k, 'v) jsmap \<Rightarrow> 'k \<Rightarrow> 'v \<Rightarrow> ('k, 'v) jsmap" where
  "map_set [] k v = [(k, v)]"
| "map_set ((k', v') # m) k v =
     (if k' = k then (k, v) # m else (k', v') # map_set m k v)"

definition map_get :: "('k, 'v) jsmap \<Rightarrow> 'k \<Rightarrow> 'v option" where
  "map_get m k = map_of m k"

definition map_delete :: "('k, 'v) jsmap \<Rightarrow> 'k \<Rightarrow> ('k, 'v) jsmap" where
  "map_delete m k = filter (\<lambda>e. fst e \<noteq> k) m"

definition map_keys :: "('k, 'v) jsmap \<Rightarrow> 'k list" where
  "map_keys m = map fst m"

text \<open>\<^verbatim>\<open>new Set(xs)\<close>: the distinct elements, in the order of their first occurrence.\<close>

definition newSet :: "'a list \<Rightarrow> 'a list" where
  "newSet xs = fold (\<lambda>x acc. if x \<in> set acc then acc else acc @ [x]) xs []"


section \<open>The in-memory codebase registry (FakeSnapshotManager)\<close>

text \<open>
  The registry entry is the tagged union \<^verbatim>\<open>CodebaseInfo\<close>; every variant carries the
  \<^verbatim>\<open>lastUpdated\<close> time stamp. The time stamp comes from \<^verbatim>\<open>new Date().toISOString()\<close>
  and is an argument of the model.
\<close>

datatype index_status = completed | limit_reached

datatype CodebaseInfo =
    CodebaseInfoIndexing real string
  | CodebaseInfoIndexed int int index_status string
  | CodebaseInfoIndexFailed string "real option" string

datatype codebase_status = indexed | indexing | indexfailed | not_found

fun info_status :: "CodebaseInfo \<Rightarrow> codebase_status" where
  "info_status (CodebaseInfoIndexing _ _) = indexing"
| "info_status (CodebaseInfoIndexed _ _ _ _) = indexed"
| "info_status (CodebaseInfoIndexFailed _ _ _) = indexfailed"

record index_stats =
  indexedFiles :: int
  totalChunks :: int
  status :: index_status

record FakeSnapshotManager =
  indexedCodebases :: "string list"
  indexingCodebases :: "(string, real) jsmap"
  codebaseFileCount :: "(string, int) jsmap"
  codebaseInfoMap :: "(string, CodebaseInfo) jsmap"

definition new_FakeSnapshotManager :: FakeSnapshotManager where
  "new_FakeSnapshotManager =
     \<lparr>indexedCodebases = [], indexingCodebases = [], codebaseFileCount = [],
      codebaseInfoMap = []\<rparr>"

definition getIndexedCodebases :: "FakeSnapshotManager \<Rightarrow> string list" where
  "getIndexedCodebases m = indexedCodebases m"

definition getIndexingCodebases :: "FakeSnapshotManager \<Rightarrow> string list" where
  "getIndexingCodebases m = map_keys (indexingCodebases m)"

definition getIndexingProgress :: "FakeSnapshotManager \<Rightarrow> string \<Rightarrow> real option" where
  "getIndexingProgress m codebasePath = map_get (indexingCodebases m) codebasePath"

definition setCodebaseIndexing ::
  "string \<Rightarrow> string \<Rightarrow> real \<Rightarrow> FakeSnapshotManager \<Rightarrow> FakeSnapshotManager" where
  "setCodebaseIndexing now codebasePath progress m =
     m\<lparr>indexingCodebases := map_set (indexingCodebases m) codebasePath progress,
       indexedCodebases := filter (\<lambda>path. path \<noteq> codebasePath) (indexedCodebases m),
       codebaseFileCount := map_delete (codebaseFileCount m) codebasePath,
       codebaseInfoMap :=
         map_set (codebaseInfoMap m) codebasePath (CodebaseInfoIndexing progress now)\<rparr>"

definition setCodebaseIndexed ::
  "string \<Rightarrow> string \<Rightarrow> index_stats \<Rightarrow> FakeSnapshotManager \<Rightarrow> FakeSnapshotManager" where
  "setCodebaseIndexed now codebasePath stats m =
     m\<lparr>indexedCodebases :=
         (if codebasePath \<in> set (indexedCodebases m) then indexedCodebases m
          else indexedCodebases m @ [codebasePath]),
       indexingCodebases := map_delete (indexingCodebases m) codebasePath,
       codebaseFileCount := map_set (codebaseFileCount m) codebasePath (indexedFiles stats),
       codebaseInfoMap :=
         map_set (codebaseInfoMap m) codebasePath
           (CodebaseInfoIndexed (indexedFiles stats) (totalChunks stats) (status stats) now)\<rparr>"

definition setCodebaseIndexFailed ::
  "string \<Rightarrow> string \<Rightarrow> string \<Rightarrow> real option \<Rightarrow> FakeSnapshotManager \<Rightarrow> FakeSnapshotManager"
  where
  "setCodebaseIndexFailed now codebasePath errorMessage lastAttemptedPercentage m =
     m\<lparr>indexedCodebases := filter (\<lambda>path. path \<noteq> codebasePath) (indexedCodebases m),
       indexingCodebases := map_delete (indexingCodebases m) codebasePath,
       codebaseFileCount := map_delete (codebaseFileCount m) codebasePath,
       codebaseInfoMap :=
         map_set (codebaseInfoMap m) codebasePath
           (CodebaseInfoIndexFailed errorMessage lastAttemptedPercentage now)\<rparr>"

definition getCodebaseInfo :: "FakeSnapshotManager \<Rightarrow> string \<Rightarrow> CodebaseInfo option" where
  "getCodebaseInfo m codebasePath = map_get (codebaseInfoMap m) codebasePath"

definition getCodebaseStatus :: "FakeSnapshotManager \<Rightarrow> string \<Rightarrow> codebase_status" where
  "getCodebaseStatus m codebasePath =
     (case map_get (codebaseInfoMap m) codebasePath of
        None \<Rightarrow> not_found
      | Some info \<Rightarrow> info_status info)"

text \<open>The fake keeps everything in memory: saving the snapshot is a no-op.\<close>

definition saveCodebaseSnapshot :: "FakeSnapshotManager \<Rightarrow> FakeSnapshotManager" where
  "saveCodebaseSnapshot m = m"


section \<open>BM25 sparse vectors (SimpleBM25)\<close>

text \<open>
  JavaScript numbers are modelled as real numbers, so the arithmetic below is exact;
  strings are lists of 8-bit characters, and the character classes of the tokenizer are
  the ASCII ones (\<^verbatim>\<open>\w\<close> is a letter, a digit or the underscore, \<^verbatim>\<open>\s\<close> is a space,
  a tab, a line feed, a vertical tab, a form feed or a carriage return).
\<close>

record SparseVector =
  sv_indices :: "nat list"
  sv_values :: "real list"

record SparseVectorConfig =
  minScore :: "real option"
  maxTerms :: "int option"
  normalize_cfg :: "bool option"

record BM25Config =
  cfg_k1 :: "real option"
  cfg_b :: "real option"
  cfg_minTermLength :: "int option"
  cfg_stopWords :: "string list option"

record SimpleBM25 =
  k1 :: real
  b_param :: real
  minTermLength :: int
  stopWords :: "string list"
  vocabulary :: "(string, nat) jsmap"
  idf :: "(string, real) jsmap"
  avgDocLength :: real
  trained :: bool

datatype bm25_error = EmptyCorpus | NotTrained

text \<open>The constructor, with the defaults \<^verbatim>\<open>k1 = 1.2\<close>, \<^verbatim>\<open>b = 0.75\<close>, \<^verbatim>\<open>minTermLength = 2\<close>.\<close>

definition new_SimpleBM25 :: "BM25Config \<Rightarrow> SimpleBM25" where
  "new_SimpleBM25 config =
     \<lparr>k1 = (case cfg_k1 config of Some x \<Rightarrow> x | None \<Rightarrow> 12 / 10),
      b_param = (case cfg_b config of Some x \<Rightarrow> x | None \<Rightarrow> 75 / 100),
      minTermLength = (case cfg_minTermLength config of Some x \<Rightarrow> x | None \<Rightarrow> 2),
      stopWords = (case cfg_stopWords config of Some x \<Rightarrow> x | None \<Rightarrow> []),
      vocabulary = [], idf = [], avgDocLength = 0, trained = False\<rparr>"

definition default_BM25Config :: BM25Config where
  "default_BM25Config =
     \<lparr>cfg_k1 = None, cfg_b = None, cfg_minTermLength = None, cfg_stopWords = None\<rparr>"

text \<open>
  A character of the model is a code unit of a JavaScript string below 256; strings with
  other code units are outside the model. \<^verbatim>\<open>\w\<close> is the ASCII letters, digits and the
  underscore; \<^verbatim>\<open>\s\<close> and \<^verbatim>\<open>trim\<close> take the ASCII white space and the no-break space;
  \<^verbatim>\<open>toLowerCase\<close> maps the capital letters of this range.
\<close>

definition isWordChar :: "char \<Rightarrow> bool" where
  "isWordChar c =
     (let n = (of_char c :: nat)
      in (48 \<le> n \<and> n \<le> 57) \<or> (65 \<le> n \<and> n \<le> 90) \<or> n = 95 \<or> (97 \<le> n \<and> n \<le> 122))"

definition isSpaceChar :: "char \<Rightarrow> bool" where
  "isSpaceChar c =
     (let n = (of_char c :: nat) in (9 \<le> n \<and> n \<le> 13) \<or> n = 32 \<or> n = 160)"

definition toLowerChar :: "char \<Rightarrow> char" where
  "toLowerChar c =
     (let n = (of_char c :: nat)
      in if (65 \<le> n \<and> n \<le> 90) \<or> (192 \<le> n \<and> n \<le> 222 \<and> n \<noteq> 215)
         then char_of (n + 32) else c)"

definition toLowerCase :: "string \<Rightarrow> string" where
  "toLowerCase s = map toLowerChar s"

text \<open>
  \<^verbatim>\<open>split(/\s+/)\<close>: the pieces between maximal runs of white space. A string that starts
  or ends with white space gives an empty first or last piece, and the empty string gives
  one empty piece. The first argument is the piece being read, reversed.
\<close>

function splitWhitespace :: "string \<Rightarrow> string \<Rightarrow> string list" where
  "splitWhitespace cur [] = [rev cur]"
| "splitWhitespace cur (c # cs) =
     (if isSpaceChar c then rev cur # splitWhitespace [] (dropWhile isSpaceChar cs)
      else splitWhitespace (c # cur) cs)"
  by pat_completeness auto
termination
  by (relation "measure (\<lambda>(cur, s). length s)")
    (auto simp: length_dropWhile_le less_Suc_eq_le)

definition tokenize :: "SimpleBM25 \<Rightarrow> string \<Rightarrow> string list" where
  "tokenize m text =
     filter (\<lambda>term. minTermLength m \<le> int (length term) \<and> term \<notin> set (stopWords m))
       (splitWhitespace []
          (map (\<lambda>c. if isWordChar c \<or> isSpaceChar c then c else CHR '' '')
             (toLowerCase text)))"

definition calculateTermFrequency :: "string list \<Rightarrow> (string, nat) jsmap" where
  "calculateTermFrequency tokens =
     fold (\<lambda>token termFreq.
             map_set termFreq token
               ((case map_get termFreq token of None \<Rightarrow> 0 | Some n \<Rightarrow> n) + 1))
       tokens []"

definition documentFrequency :: "string list list \<Rightarrow> (string, nat) jsmap" where
  "documentFrequency tokenizedDocs =
     fold (\<lambda>tokens docFreq.
             fold (\<lambda>term df.
                     map_set df term ((case map_get df term of None \<Rightarrow> 0 | Some n \<Rightarrow> n) + 1))
               (newSet tokens) docFreq)
       tokenizedDocs []"

definition learn :: "SimpleBM25 \<Rightarrow> string list \<Rightarrow> bm25_error + SimpleBM25" where
  "learn m documents =
     (if documents = [] then Inl EmptyCorpus
      else
        let tokenizedDocs = map (tokenize m) documents;
            totalLength = sum_list (map length tokenizedDocs);
            docFreq = documentFrequency tokenizedDocs;
            numDocs = length documents
        in Inr (m\<lparr>avgDocLength := real totalLength / real (length tokenizedDocs),
                  vocabulary :=
                    fold (\<lambda>(vocabIndex, term) voc. map_set voc term vocabIndex)
                      (zip [0..<length docFreq] (map fst docFreq)) [],
                  idf :=
                    fold (\<lambda>(term, df) acc.
                            map_set acc term
                              (ln ((real numDocs - real df + 1 / 2) / (real df + 1 / 2))))
                      docFreq [],
                  trained := True\<rparr>))"

text \<open>
  The BM25 weight of a term of frequency \<open>tf\<close> in a text of \<open>docLength\<close> tokens, given
  the inverse document frequency of the term, and the denominator of its normalised term
  frequency. The numbers of the program are modelled by real numbers. Where the program
  divides by zero its quotient is \<^verbatim>\<open>Infinity\<close> or \<^verbatim>\<open>NaN\<close>, which the real numbers do
  not have: there the model says nothing about the program, and the statements about
  weights are made for models in which \<open>bm25Denominator\<close> and \<^verbatim>\<open>avgDocLength\<close> are
  not zero.
\<close>

definition bm25Denominator :: "SimpleBM25 \<Rightarrow> nat \<Rightarrow> nat \<Rightarrow> real" where
  "bm25Denominator m docLength tf =
     real tf + k1 m * (1 - b_param m + (b_param m * real docLength) / avgDocLength m)"

definition bm25Score :: "SimpleBM25 \<Rightarrow> nat \<Rightarrow> nat \<Rightarrow> real \<Rightarrow> real" where
  "bm25Score m docLength tf idfScore =
     idfScore * ((real tf * (k1 m + 1)) / bm25Denominator m docLength tf)"

text \<open>
  The loop over the term frequencies: a term that is not in the vocabulary is skipped,
  and so is a term whose weight is below \<^verbatim>\<open>minScore\<close>; the others are pushed with
  their vocabulary index.
\<close>

definition scoreTerms ::
  "SimpleBM25 \<Rightarrow> real option \<Rightarrow> nat \<Rightarrow> (string, nat) jsmap \<Rightarrow> (nat \<times> real) list" where
  "scoreTerms m minScoreOpt docLength termFreq =
     fold (\<lambda>(term, tf) acc.
             (case (map_get (vocabulary m) term, map_get (idf m) term) of
                (Some vocabIndex, Some idfScore) \<Rightarrow>
                  (let score = bm25Score m docLength tf idfScore
                   in (case minScoreOpt of
                         Some ms \<Rightarrow> if score < ms then acc else acc @ [(vocabIndex, score)]
                       | None \<Rightarrow> acc @ [(vocabIndex, score)]))
              | _ \<Rightarrow> acc))
       termFreq []"

text \<open>
  \<^verbatim>\<open>splice(n)\<close> on a list keeps the elements before index \<open>n\<close>; a negative \<open>n\<close> counts
  from the end.
\<close>

definition spliceFrom :: "int \<Rightarrow> 'a list \<Rightarrow> 'a list" where
  "spliceFrom n xs =
     (if 0 \<le> n then take (nat n) xs else take (nat (max (int (length xs) + n) 0)) xs)"

text \<open>The sort by descending value is stable, as \<^verbatim>\<open>Array.prototype.sort\<close> is.\<close>

definition applyMaxTerms :: "int option \<Rightarrow> (nat \<times> real) list \<Rightarrow> (nat \<times> real) list" where
  "applyMaxTerms maxTermsOpt combined =
     (case maxTermsOpt of
        None \<Rightarrow> combined
      | Some mt \<Rightarrow>
          if int (length combined) > mt
          then spliceFrom mt (sort_key (\<lambda>e. - snd e) combined)
          else combined)"

definition epsilon :: real where
  "epsilon = 1 / 1000000"

definition ensurePositive :: "real list \<Rightarrow> real list" where
  "ensurePositive vals =
     (if vals \<noteq> [] \<and> min_list vals \<le> 0
      then map (\<lambda>v. v + (- min_list vals + epsilon)) vals
      else vals)"

definition normalizeValues :: "bool option \<Rightarrow> real list \<Rightarrow> real list" where
  "normalizeValues normalizeOpt vals =
     (if normalizeOpt = Some True \<and> vals \<noteq> []
      then map (\<lambda>v. v / sqrt (sum_list (map (\<lambda>val. val * val) vals))) vals
      else vals)"

definition generate ::
  "SimpleBM25 \<Rightarrow> string \<Rightarrow> SparseVectorConfig option \<Rightarrow> bm25_error + SparseVector" where
  "generate m text config =
     (if \<not> trained m then Inl NotTrained
      else
        let tokens = tokenize m text;
            termFreq = calculateTermFrequency tokens;
            docLength = length tokens;
            scored = scoreTerms m (case config of None \<Rightarrow> None | Some c \<Rightarrow> minScore c)
                       docLength termFreq;
            kept = applyMaxTerms (case config of None \<Rightarrow> None | Some c \<Rightarrow> maxTerms c) scored;
            shifted = ensurePositive (map snd kept)
        in Inr \<lparr>sv_indices = map fst kept,
                sv_values = normalizeValues
                           (case config of None \<Rightarrow> None | Some c \<Rightarrow> normalize_cfg c) shifted\<rparr>)"

definition isTrained :: "SimpleBM25 \<Rightarrow> bool" where
  "isTrained m = trained m"


subsection \<open>The steps of generate, as the specification orders them\<close>






definition example_model :: SimpleBM25 where
  "example_model =
     \<lparr>k1 = 12 / 10, b_param = 75 / 100, minTermLength = 2, stopWords = [],
      vocabulary = [(''aa'', 0), (''bb'', 1), (''cc'', 2)],
      idf = [(''aa'', ln (1 / 7)), (''bb'', ln (5 / 3)), (''cc'', ln (5 / 3))],
      avgDocLength = 5 / 3, trained = True\<rparr>"


text \<open>The example model with the parameters \<^verbatim>\<open>k1 = -1\<close> and \<^verbatim>\<open>b = 0\<close>.\<close>

definition degenerate_model :: SimpleBM25 where
  "degenerate_model = example_model\<lparr>k1 := - 1, b_param := 0\<rparr>"


section \<open>The Gemini embedder: retries\<close>


text \<open>\<^verbatim>\<open>String.prototype.includes\<close>.\<close>

fun str_includes :: "string \<Rightarrow> string \<Rightarrow> bool" where
  "str_includes [] pat = (pat = [])"
| "str_includes (c # s) pat = (take (length pat) (c # s) = pat \<or> str_includes s pat)"





























section \<open>The local store (LibSQLVectorDatabase)\<close>

subsection \<open>Filter expressions\<close>

definition isLineTerminator :: "char \<Rightarrow> bool" where
  "isLineTerminator c = (let n = (of_char c :: nat) in n = 10 \<or> n = 13)"

definition trim :: "string \<Rightarrow> string" where
  "trim s = rev (dropWhile isSpaceChar (rev (dropWhile isSpaceChar s)))"

fun splitOn :: "char \<Rightarrow> string \<Rightarrow> string \<Rightarrow> string list" where
  "splitOn sep cur [] = [rev cur]"
| "splitOn sep cur (c # cs) =
     (if c = sep then rev cur # splitOn sep [] cs else splitOn sep (c # cur) cs)"

fun joinWith :: "string \<Rightarrow> string list \<Rightarrow> string" where
  "joinWith sep [] = []"
| "joinWith sep [x] = x"
| "joinWith sep (x # y # ys) = x @ sep @ joinWith sep (y # ys)"

fun lastIndexOf :: "char \<Rightarrow> string \<Rightarrow> nat option" where
  "lastIndexOf c [] = None"
| "lastIndexOf c (x # xs) =
     (case lastIndexOf c xs of
        Some i \<Rightarrow> Some (Suc i)
      | None \<Rightarrow> if x = c then Some 0 else None)"

definition matchInAt :: "string \<Rightarrow> (string \<times> string) option" where
  "matchInAt s =
     (let field = takeWhile isWordChar s;
          r1 = dropWhile isWordChar s;
          r2 = dropWhile isSpaceChar r1;
          r3 = drop 2 r2;
          r4 = dropWhile isSpaceChar r3
      in if field = [] \<or> takeWhile isSpaceChar r1 = [] \<or> take 2 r2 \<noteq> ''in''
            \<or> takeWhile isSpaceChar r3 = []
         then None
         else (case r4 of
                 [] \<Rightarrow> None
               | c # r5 \<Rightarrow>
                   if c \<noteq> CHR ''['' then None
                   else (let line = takeWhile (\<lambda>x. \<not> isLineTerminator x) r5
                         in (case lastIndexOf CHR '']'' line of
                               None \<Rightarrow> None
                             | Some i \<Rightarrow> Some (field, take i line)))))"

fun matchIn :: "string \<Rightarrow> (string \<times> string) option" where
  "matchIn [] = None"
| "matchIn (c # cs) =
     (case matchInAt (c # cs) of Some groups \<Rightarrow> Some groups | None \<Rightarrow> matchIn cs)"

fun restOfLineAfterSpaces :: "nat \<Rightarrow> string \<Rightarrow> string option" where
  "restOfLineAfterSpaces 0 s =
     (let g = takeWhile (\<lambda>x. \<not> isLineTerminator x) s in if g = [] then None else Some g)"
| "restOfLineAfterSpaces (Suc k) s =
     (let g = takeWhile (\<lambda>x. \<not> isLineTerminator x) (drop (Suc k) s)
      in if g = [] then restOfLineAfterSpaces k s else Some g)"

definition matchEqAt :: "string \<Rightarrow> (string \<times> string) option" where
  "matchEqAt s =
     (let field = takeWhile isWordChar s;
          r1 = dropWhile isSpaceChar (dropWhile isWordChar s);
          r2 = drop 2 r1
      in if field = [] \<or> take 2 r1 \<noteq> ''=='' then None
         else (case restOfLineAfterSpaces (length (takeWhile isSpaceChar r2)) r2 of
                 None \<Rightarrow> None
               | Some g \<Rightarrow> Some (field, g)))"

fun matchEq :: "string \<Rightarrow> (string \<times> string) option" where
  "matchEq [] = None"
| "matchEq (c # cs) =
     (case matchEqAt (c # cs) of Some groups \<Rightarrow> Some groups | None \<Rightarrow> matchEq cs)"

text \<open>
  \<^verbatim>\<open>mapFieldName\<close> looks the field up in an object literal, so the lookup also finds
  the members that every object inherits. Such a member is a function or an object and
  not a string; the program goes on to use it as a string, and the model returns the
  text that the conversion gives in Node.js.
\<close>

definition mapFieldName :: "string \<Rightarrow> string" where
  "mapFieldName field =
     (if field = ''relativePath'' then ''relative_path''
      else if field = ''startLine'' then ''start_line''
      else if field = ''endLine'' then ''end_line''
      else if field = ''fileExtension'' then ''file_extension''
      else if field = ''constructor'' then ''function Object() { [native code] }''
      else if field \<in> set [''toString'', ''toLocaleString'', ''valueOf'', ''hasOwnProperty'',
                             ''isPrototypeOf'', ''propertyIsEnumerable'', ''__defineGetter__'',
                             ''__defineSetter__'', ''__lookupGetter__'', ''__lookupSetter__'']
      then ''function '' @ field @ ''() { [native code] }''
      else if field = ''__proto__'' then ''[object Object]''
      else field)"

definition parseFilterExpression :: "string \<Rightarrow> string \<times> bool" where
  "parseFilterExpression expr =
     (case (if str_includes expr '' in '' then matchIn expr else None) of
        Some (f, vs) \<Rightarrow>
          (mapFieldName f @ '' IN ('' @ joinWith '','' (map trim (splitOn CHR '','' [] vs)) @ '')'',
           False)
      | None \<Rightarrow>
          (case (if str_includes expr ''=='' then matchEq expr else None) of
             Some (f, v) \<Rightarrow> (mapFieldName f @ '' = '' @ trim v, False)
           | None \<Rightarrow> (expr, True)))"


subsection \<open>Tables and the SQL engine\<close>

text \<open>
  A row of the \<^verbatim>\<open>documents\<close> table. The two sparse columns hold the JSON text of a
  number array or \<^verbatim>\<open>NULL\<close>; they are modelled by the array itself. A dense-only
  collection has no sparse columns, and its rows have \<open>None\<close> there.
\<close>

record document_row =
  col_id :: string
  col_content :: string
  col_relative_path :: string
  col_start_line :: int
  col_end_line :: int
  col_file_extension :: string
  col_metadata :: string
  col_dense_vector :: "real list"
  col_sparse_indices :: "nat list option"
  col_sparse_values :: "real list option"

record VectorDocument =
  doc_id :: string
  doc_vector :: "real list"
  doc_content :: string
  relativePath :: string
  startLine :: int
  endLine :: int
  fileExtension :: string
  doc_metadata :: string

record CollectionMetadata =
  dimension :: nat
  isHybrid :: bool
  documentCount :: nat
  createdAt :: string

text \<open>
  One collection: its table in row-id order, its cached metadata and, for a hybrid
  collection, its BM25 generator. The store maps collection names to collections; a name
  without a collection has no database file.
\<close>

record collection =
  documents :: "document_row list"
  coll_metadata :: CollectionMetadata
  bm25Generator :: "SimpleBM25 option"

type_synonym libsql_store = "string \<Rightarrow> collection option"

datatype sql_value =
    SqlNull
  | SqlText string
  | SqlInteger int
  | SqlVector "real list"
  | SqlIndices "nat list"
  | SqlValues "real list"

datatype store_error =
    CollectionDoesNotExist string
  | DimensionMismatch string nat nat
  | NotHybridCollection string
  | SqlError string
  | TypeError

text \<open>
  What the program asks of the SQL engine and cannot be read off its source: how a
  \<^verbatim>\<open>WHERE\<close> clause is evaluated (\<open>None\<close> when the engine rejects the clause), which rows
  the vector index returns for a query vector and a count, and the cosine distance.
\<close>

record sql_engine =
  where_clause :: "string \<Rightarrow> (document_row \<Rightarrow> bool) option"
  vector_top_k :: "document_row list \<Rightarrow> real list \<Rightarrow> nat \<Rightarrow> document_row list"
  vector_distance_cos :: "real list \<Rightarrow> real list \<Rightarrow> real"

text \<open>The value of a column of a row; \<open>None\<close> when the table has no such column.\<close>

definition column_value :: "bool \<Rightarrow> string \<Rightarrow> document_row \<Rightarrow> sql_value option" where
  "column_value hybrid name r =
     (if name = ''id'' then Some (SqlText (col_id r))
      else if name = ''content'' then Some (SqlText (col_content r))
      else if name = ''relative_path'' then Some (SqlText (col_relative_path r))
      else if name = ''start_line'' then Some (SqlInteger (col_start_line r))
      else if name = ''end_line'' then Some (SqlInteger (col_end_line r))
      else if name = ''file_extension'' then Some (SqlText (col_file_extension r))
      else if name = ''metadata'' then Some (SqlText (col_metadata r))
      else if name = ''dense_vector'' then Some (SqlVector (col_dense_vector r))
      else if hybrid \<and> name = ''sparse_indices''
        then Some (case col_sparse_indices r of None \<Rightarrow> SqlNull | Some is \<Rightarrow> SqlIndices is)
      else if hybrid \<and> name = ''sparse_values''
        then Some (case col_sparse_values r of None \<Rightarrow> SqlNull | Some vs \<Rightarrow> SqlValues vs)
      else None)"

definition table_columns :: "bool \<Rightarrow> string list" where
  "table_columns hybrid =
     [''id'', ''content'', ''relative_path'', ''start_line'', ''end_line'', ''file_extension'',
      ''metadata'', ''dense_vector'']
     @ (if hybrid then [''sparse_indices'', ''sparse_values''] else [])"


text \<open>\<^verbatim>\<open>LIMIT n\<close>: a negative \<open>n\<close> is no limit.\<close>

definition sql_limit :: "int \<Rightarrow> 'a list \<Rightarrow> 'a list" where
  "sql_limit n rows = (if n < 0 then rows else take (nat n) rows)"

subsection \<open>Operations\<close>

definition getClient :: "libsql_store \<Rightarrow> string \<Rightarrow> store_error + collection" where
  "getClient store collectionName =
     (case store collectionName of
        None \<Rightarrow> Inl (CollectionDoesNotExist collectionName)
      | Some c \<Rightarrow> Inr c)"

definition updateDocumentCount :: "collection \<Rightarrow> collection" where
  "updateDocumentCount c =
     c\<lparr>coll_metadata := (coll_metadata c)\<lparr>documentCount := length (documents c)\<rparr>\<rparr>"

definition documentToRow :: "VectorDocument \<Rightarrow> document_row" where
  "documentToRow doc =
     \<lparr>col_id = doc_id doc, col_content = doc_content doc,
      col_relative_path = relativePath doc, col_start_line = startLine doc,
      col_end_line = endLine doc, col_file_extension = fileExtension doc,
      col_metadata = doc_metadata doc, col_dense_vector = doc_vector doc,
      col_sparse_indices = None, col_sparse_values = None\<rparr>"



text \<open>
  The row that a \<^verbatim>\<open>SELECT\<close> of the mapped output fields returns, as an object from
  column names to values (all columns when no field is asked for), and its projection
  \<open>rowToResult\<close> to the requested output fields, an object given as the list of its
  properties.
\<close>

definition selectRow ::
  "bool \<Rightarrow> string list \<Rightarrow> document_row \<Rightarrow> string \<Rightarrow> sql_value option" where
  "selectRow hybrid outputFields r name =
     (if outputFields = [] \<or> name \<in> set (map mapFieldName outputFields)
      then column_value hybrid name r else None)"

definition rowToResult ::
  "(string \<Rightarrow> sql_value option) \<Rightarrow> string list \<Rightarrow> (string, sql_value) jsmap" where
  "rowToResult row outputFields =
     fold (\<lambda>field result.
             (case row (mapFieldName field) of
                Some v \<Rightarrow> map_set result field v
              | None \<Rightarrow>
                  (case row field of
                     Some v \<Rightarrow> map_set result field v
                   | None \<Rightarrow> result)))
       outputFields []"

text \<open>
  \<^verbatim>\<open>query\<close>. The statement selects the mapped output fields (all columns when there
  are none), keeps the rows of the \<^verbatim>\<open>WHERE\<close> clause when the filter is not blank, and
  is limited to \<^verbatim>\<open>limit || 100\<close> rows. Selecting a name that is not a column, and a
  clause that the engine rejects, are SQL errors. The second component tells whether
  the filter parser warned. The statement has no \<^verbatim>\<open>ORDER BY\<close>, so the order of the
  rows, and with it the choice of the rows that the limit keeps, is the engine's; the
  model takes the order of the table.
\<close>

definition query_libsql ::
  "sql_engine \<Rightarrow> libsql_store \<Rightarrow> string \<Rightarrow> string \<Rightarrow> string list \<Rightarrow> int option
     \<Rightarrow> (store_error + (string, sql_value) jsmap list) \<times> bool" where
  "query_libsql eng store collectionName filter_expr outputFields limit =
     (case getClient store collectionName of
        Inl err \<Rightarrow> (Inl err, False)
      | Inr c \<Rightarrow>
          (let hybrid = isHybrid (coll_metadata c);
               limitArg = (case limit of None \<Rightarrow> 100 | Some l \<Rightarrow> if l = 0 then 100 else l);
               parsed = (if filter_expr \<noteq> [] \<and> trim filter_expr \<noteq> []
                         then Some (parseFilterExpression filter_expr) else None);
               warned = (case parsed of None \<Rightarrow> False | Some (_, w) \<Rightarrow> w);
               selection = (case parsed of
                              None \<Rightarrow> Some (\<lambda>r. True)
                            | Some (whereClause, _) \<Rightarrow> where_clause eng whereClause)
           in if \<exists>f \<in> set outputFields. mapFieldName f \<notin> set (table_columns hybrid)
              then (Inl (SqlError ''no such column''), warned)
              else (case selection of
                      None \<Rightarrow> (Inl (SqlError ''where clause''), warned)
                    | Some keep \<Rightarrow>
                        (Inr (map (\<lambda>r. rowToResult (selectRow hybrid outputFields r) outputFields)
                                (sql_limit limitArg (filter keep (documents c)))),
                         warned))))"


record SearchOptions =
  topK :: "nat option"
  threshold :: "real option"
  filterExpr :: "string option"

record VectorSearchResult =
  res_document :: VectorDocument
  res_score :: real

definition rowToDocument :: "document_row \<Rightarrow> VectorDocument" where
  "rowToDocument r =
     \<lparr>doc_id = col_id r, doc_vector = [], doc_content = col_content r,
      relativePath = col_relative_path r, startLine = col_start_line r,
      endLine = col_end_line r, fileExtension = col_file_extension r,
      doc_metadata = col_metadata r\<rparr>"

text \<open>
  \<^verbatim>\<open>search\<close>. The statement joins the \<^verbatim>\<open>topK * 2\<close> rows of the vector index with
  their cosine distances, keeps the rows of the \<^verbatim>\<open>WHERE\<close> clause when a filter is
  given, orders by ascending distance and is limited to \<^verbatim>\<open>topK\<close> rows; the loop
  over the returned rows computes the scores and applies the threshold.
  \<^verbatim>\<open>ORDER BY\<close> is modelled as a stable sort. The score \<open>1 / (1 + distance)\<close> is a
  real number; at the distance \<open>- 1\<close> the program's score is \<^verbatim>\<open>Infinity\<close>, which the
  model does not represent, and the statements about scores are made for distances
  that exclude it.
\<close>

definition searchTopK :: "SearchOptions option \<Rightarrow> nat" where
  "searchTopK options =
     (case (case options of None \<Rightarrow> None | Some opts \<Rightarrow> topK opts) of
        None \<Rightarrow> 10 | Some n \<Rightarrow> if n = 0 then 10 else n)"

definition belowThreshold :: "SearchOptions option \<Rightarrow> real \<Rightarrow> bool" where
  "belowThreshold options score =
     (case (case options of None \<Rightarrow> None | Some opts \<Rightarrow> threshold opts) of
        None \<Rightarrow> False | Some t \<Rightarrow> score < t)"

definition searchStatement ::
  "sql_engine \<Rightarrow> collection \<Rightarrow> real list \<Rightarrow> nat \<Rightarrow> (document_row \<Rightarrow> bool)
     \<Rightarrow> (document_row \<times> real) list" where
  "searchStatement eng c queryVector topKArg keep =
     take topKArg
       (sort_key snd
          (filter (\<lambda>(r, distance). keep r)
             (map (\<lambda>r. (r, vector_distance_cos eng (col_dense_vector r) queryVector))
                (vector_top_k eng (documents c) queryVector (topKArg * 2)))))"

text \<open>
  The rows that the \<^verbatim>\<open>WHERE\<close> clause of \<^verbatim>\<open>search\<close> keeps: all rows without a
  filter expression, \<open>None\<close> when the engine rejects the clause.
\<close>

definition searchSelection ::
  "sql_engine \<Rightarrow> SearchOptions option \<Rightarrow> (document_row \<Rightarrow> bool) option" where
  "searchSelection eng options =
     (case (case options of None \<Rightarrow> None | Some opts \<Rightarrow> filterExpr opts) of
        None \<Rightarrow> Some (\<lambda>r. True)
      | Some expr \<Rightarrow>
          if expr = [] then Some (\<lambda>r. True)
          else where_clause eng (fst (parseFilterExpression expr)))"

definition search_libsql ::
  "sql_engine \<Rightarrow> libsql_store \<Rightarrow> string \<Rightarrow> real list \<Rightarrow> SearchOptions option
     \<Rightarrow> store_error + VectorSearchResult list" where
  "search_libsql eng store collectionName queryVector options =
     (case getClient store collectionName of
        Inl err \<Rightarrow> Inl err
      | Inr c \<Rightarrow>
          (case searchSelection eng options of
             None \<Rightarrow> Inl (SqlError ''where clause'')
           | Some keep \<Rightarrow>
               Inr (concat
                 (map (\<lambda>(r, distance).
                         (let score = 1 / (1 + distance)
                          in if belowThreshold options score then []
                             else [\<lparr>res_document = rowToDocument r, res_score = score\<rparr>]))
                    (searchStatement eng c queryVector (searchTopK options) keep)))))"

subsection \<open>Hybrid search\<close>

datatype request_data = DenseData "real list" | TextData string

record HybridSearchRequest =
  req_data :: request_data
  anns_field :: string
  req_limit :: "nat option"

record HybridSearchOptions =
  hs_limit :: "nat option"
  hs_filterExpr :: "string option"
  rerank_k :: "real option"






record HybridSearchResult =
  hres_document :: VectorDocument
  hres_score :: real





text \<open>\<^verbatim>\<open>options?.limit || 10\<close> and \<^verbatim>\<open>options?.rerank?.params?.k || 60\<close>.\<close>

definition hybridSearchLimit :: "HybridSearchOptions option \<Rightarrow> nat" where
  "hybridSearchLimit options =
     (case (case options of None \<Rightarrow> None | Some opts \<Rightarrow> hs_limit opts) of
        None \<Rightarrow> 10 | Some n \<Rightarrow> if n = 0 then 10 else n)"



subsection \<open>Reciprocal rank fusion, as the specification states it\<close>




subsection \<open>Example collections\<close>

text \<open>
  Documents with the ids \<^verbatim>\<open>d\<close>, \<^verbatim>\<open>dd\<close>, \<^verbatim>\<open>ddd\<close> and so on, a store with one empty
  dense collection \<^verbatim>\<open>c\<close> of dimension 1, the same collection after the first \<open>n\<close>
  numbered documents were inserted, and an engine that computes the cosine distance
  exactly, returns the nearest rows and rejects every \<^verbatim>\<open>WHERE\<close> clause.
\<close>

definition numberedId :: "nat \<Rightarrow> string" where
  "numberedId i = replicate (Suc i) CHR ''d''"

definition numberedDocument :: "nat \<Rightarrow> VectorDocument" where
  "numberedDocument i =
     \<lparr>doc_id = numberedId i, doc_vector = [1], doc_content = ''text'',
      relativePath = ''a.ts'', startLine = 1, endLine = 1, fileExtension = ''.ts'',
      doc_metadata = ''{}''\<rparr>"

definition emptyCollection :: "nat \<Rightarrow> bool \<Rightarrow> collection" where
  "emptyCollection d hybrid =
     \<lparr>documents = [],
      coll_metadata = \<lparr>dimension = d, isHybrid = hybrid, documentCount = 0, createdAt = ''now''\<rparr>,
      bm25Generator = (if hybrid then Some (new_SimpleBM25 default_BM25Config) else None)\<rparr>"

definition example_store :: libsql_store where
  "example_store = Map.empty(''c'' \<mapsto> emptyCollection 1 False)"

definition cosineDistance :: "real list \<Rightarrow> real list \<Rightarrow> real" where
  "cosineDistance u v =
     1 - sum_list (map (\<lambda>(x, y). x * y) (zip u v))
           / (sqrt (sum_list (map (\<lambda>x. x * x) u)) * sqrt (sum_list (map (\<lambda>y. y * y) v)))"

definition example_engine :: sql_engine where
  "example_engine =
     \<lparr>where_clause = (\<lambda>clause. None),
      vector_top_k = (\<lambda>rows q k. take k (sort_key (\<lambda>r. cosineDistance (col_dense_vector r) q) rows)),
      vector_distance_cos = cosineDistance\<rparr>"

definition numberedCollection :: "nat \<Rightarrow> collection" where
  "numberedCollection n =
     updateDocumentCount
       ((emptyCollection 1 False)
          \<lparr>documents := map (\<lambda>i. documentToRow (numberedDocument i)) [0..<n]\<rparr>)"

text \<open>
  A hybrid collection \<^verbatim>\<open>h\<close> of dimension 2 with two documents, \<^verbatim>\<open>a\<close> and \<^verbatim>\<open>b\<close>, whose
  BM25 generator is the model learnt from the example corpus, and the two requests of a
  hybrid search.
\<close>

definition row_a :: document_row where
  "row_a =
     \<lparr>col_id = ''a'', col_content = ''bb bb cc'', col_relative_path = ''a.ts'',
      col_start_line = 1, col_end_line = 1, col_file_extension = ''.ts'', col_metadata = ''{}'',
      col_dense_vector = [0, 1], col_sparse_indices = Some [1, 2],
      col_sparse_values = Some [2, 1]\<rparr>"

definition row_b :: document_row where
  "row_b =
     \<lparr>col_id = ''b'', col_content = ''bb cc cc'', col_relative_path = ''b.ts'',
      col_start_line = 1, col_end_line = 1, col_file_extension = ''.ts'', col_metadata = ''{}'',
      col_dense_vector = [1, 0], col_sparse_indices = Some [1, 2],
      col_sparse_values = Some [1, 2]\<rparr>"

definition example_hybrid_collection :: collection where
  "example_hybrid_collection =
     \<lparr>documents = [row_a, row_b],
      coll_metadata = \<lparr>dimension = 2, isHybrid = True, documentCount = 2, createdAt = ''now''\<rparr>,
      bm25Generator = Some example_model\<rparr>"

definition example_hybrid_store :: libsql_store where
  "example_hybrid_store = Map.empty(''h'' \<mapsto> example_hybrid_collection)"






subsection \<open>The Qdrant store\<close>

text \<open>
  The Qdrant store keeps its points in a remote service. What the program sends is
  modelled by the request records below, and the service by the two functions of
  \<open>qdrant_client\<close>, which answer with scored points or with an error. A scored
  point carries the decoded id and payload fields.
\<close>

datatype qdrant_filter = MatchAny string "string list" | MatchKeyword string string

definition isQuoteChar :: "char \<Rightarrow> bool" where
  "isQuoteChar c = (c = CHR 0x27 \<or> c = CHR 0x22)"

definition quotedValueAt :: "string \<Rightarrow> string option" where
  "quotedValueAt r =
     (let quoted = (case r of
                      [] \<Rightarrow> []
                    | c # cs \<Rightarrow>
                        if isQuoteChar c then takeWhile (\<lambda>x. \<not> isQuoteChar x) cs else []);
          plain = takeWhile (\<lambda>x. \<not> isQuoteChar x) r
      in if quoted \<noteq> [] then Some quoted else if plain \<noteq> [] then Some plain else None)"

fun valueAfterSpaces :: "nat \<Rightarrow> string \<Rightarrow> string option" where
  "valueAfterSpaces 0 s = quotedValueAt s"
| "valueAfterSpaces (Suc k) s =
     (case quotedValueAt (drop (Suc k) s) of
        Some g \<Rightarrow> Some g
      | None \<Rightarrow> valueAfterSpaces k s)"

definition matchEqQuotedAt :: "string \<Rightarrow> (string \<times> string) option" where
  "matchEqQuotedAt s =
     (let field = takeWhile isWordChar s;
          r1 = dropWhile isSpaceChar (dropWhile isWordChar s);
          r2 = drop 2 r1
      in if field = [] \<or> take 2 r1 \<noteq> ''=='' then None
         else (case valueAfterSpaces (length (takeWhile isSpaceChar r2)) r2 of
                 None \<Rightarrow> None
               | Some g \<Rightarrow> Some (field, g)))"

fun matchEqQuoted :: "string \<Rightarrow> (string \<times> string) option" where
  "matchEqQuoted [] = None"
| "matchEqQuoted (c # cs) =
     (case matchEqQuotedAt (c # cs) of
        Some groups \<Rightarrow> Some groups
      | None \<Rightarrow> matchEqQuoted cs)"

definition removeQuotes :: "string \<Rightarrow> string" where
  "removeQuotes s = filter (\<lambda>c. \<not> isQuoteChar c) s"

definition parseFilterExpression_qdrant :: "string \<Rightarrow> qdrant_filter option \<times> bool" where
  "parseFilterExpression_qdrant expr =
     (if str_includes expr '' in '' then
        (case matchIn expr of
           Some (f, vs) \<Rightarrow>
             (Some (MatchAny f (map (\<lambda>v. removeQuotes (trim v)) (splitOn CHR '','' [] vs))),
              False)
         | None \<Rightarrow> (None, True))
      else if str_includes expr ''=='' then
        (case matchEqQuoted expr of
           Some (f, v) \<Rightarrow> (Some (MatchKeyword f (trim v)), False)
         | None \<Rightarrow> (None, True))
      else (None, True))"

record ScoredPoint =
  pt_id :: string
  pt_content :: string
  pt_relativePath :: string
  pt_startLine :: int
  pt_endLine :: int
  pt_fileExtension :: string
  pt_metadata :: string
  pt_score :: real

datatype qdrant_error =
    MissingRequests
  | SparseGeneration bm25_error
  | RemoteError string

record searchParams =
  sp_collectionName :: string
  sp_vector :: "real list"
  sp_vectorName :: string
  sp_limit :: nat
  sp_filter :: "qdrant_filter option"

datatype VectorInput = DenseInput "real list" | SparseInput "nat list" "real list"

record PrefetchQuery =
  pf_query :: VectorInput
  pf_using :: string
  pf_limit :: nat

record queryParams =
  qp_collectionName :: string
  qp_prefetch :: "PrefetchQuery list"
  qp_limit :: nat
  qp_filter :: "qdrant_filter option"

record qdrant_client =
  points_search :: "searchParams \<Rightarrow> qdrant_error + ScoredPoint list"
  points_query :: "queryParams \<Rightarrow> qdrant_error + ScoredPoint list"

definition pointToDocument :: "real list \<Rightarrow> ScoredPoint \<Rightarrow> VectorDocument" where
  "pointToDocument v p =
     \<lparr>doc_id = pt_id p, doc_vector = v, doc_content = pt_content p,
      relativePath = pt_relativePath p, startLine = pt_startLine p,
      endLine = pt_endLine p, fileExtension = pt_fileExtension p,
      doc_metadata = pt_metadata p\<rparr>"

text \<open>
  The filter of a request: present when the filter expression is not blank, and then
  whatever the parser returns, which is no filter for an expression it cannot parse.
\<close>

definition requestFilter :: "string option \<Rightarrow> qdrant_filter option" where
  "requestFilter expr =
     (case expr of
        None \<Rightarrow> None
      | Some e \<Rightarrow> if trim e \<noteq> [] then fst (parseFilterExpression_qdrant e) else None)"

definition search_qdrant ::
  "qdrant_client \<Rightarrow> string \<Rightarrow> real list \<Rightarrow> SearchOptions option
     \<Rightarrow> qdrant_error + VectorSearchResult list" where
  "search_qdrant client collectionName queryVector options =
     (case points_search client
             \<lparr>sp_collectionName = collectionName, sp_vector = queryVector,
              sp_vectorName = ''dense'', sp_limit = searchTopK options,
              sp_filter = requestFilter
                            (case options of None \<Rightarrow> None | Some opts \<Rightarrow> filterExpr opts)\<rparr> of
        Inl err \<Rightarrow> Inl err
      | Inr results \<Rightarrow>
          Inr (map (\<lambda>result. \<lparr>res_document = pointToDocument queryVector result,
                              res_score = pt_score result\<rparr>) results))"

definition isArrayData :: "request_data \<Rightarrow> bool" where
  "isArrayData d = (case d of DenseData _ \<Rightarrow> True | TextData _ \<Rightarrow> False)"

definition isStringData :: "request_data \<Rightarrow> bool" where
  "isStringData d = (case d of DenseData _ \<Rightarrow> False | TextData _ \<Rightarrow> True)"

text \<open>
  The sparse vector of a query text: generated by the model when it is trained, empty
  otherwise.
\<close>

definition sparseQuery :: "SimpleBM25 \<Rightarrow> string \<Rightarrow> bm25_error + SparseVector" where
  "sparseQuery bm25 textQuery =
     (if isTrained bm25 then generate bm25 textQuery None
      else Inr \<lparr>sv_indices = [], sv_values = []\<rparr>)"

definition prefetchLimit :: "HybridSearchRequest \<Rightarrow> nat" where
  "prefetchLimit req = (case req_limit req of None \<Rightarrow> 25 | Some n \<Rightarrow> if n = 0 then 25 else n)"

text \<open>A search result returned where a hybrid result is expected: the same two fields.\<close>

definition asHybridSearchResult :: "VectorSearchResult \<Rightarrow> HybridSearchResult" where
  "asHybridSearchResult r = \<lparr>hres_document = res_document r, hres_score = res_score r\<rparr>"

text \<open>
  \<^verbatim>\<open>hybridSearch\<close> is modelled in two parts. \<open>hybridSearchWithSparseQuery\<close> is the
  body of the function from the validation of the sparse query on: it takes the two
  requests found, the dense query and the sparse query as arguments. \<open>hybridSearch_qdrant\<close>
  is the whole function: it finds the two requests, generates the sparse query with the
  BM25 model of the store and continues with the first part.
\<close>

definition hybridSearchWithSparseQuery ::
  "qdrant_client \<Rightarrow> string \<Rightarrow> HybridSearchRequest \<Rightarrow> HybridSearchRequest \<Rightarrow> real list
     \<Rightarrow> SparseVector \<Rightarrow> HybridSearchOptions option
     \<Rightarrow> qdrant_error + HybridSearchResult list" where
  "hybridSearchWithSparseQuery client collectionName denseQueryReq textQueryReq denseQuery sq
       options =
     (let filterOpt = (case options of None \<Rightarrow> None | Some opts \<Rightarrow> hs_filterExpr opts);
          fallback =
            map_sum id (map asHybridSearchResult)
              (search_qdrant client collectionName denseQuery
                 (Some \<lparr>topK = Some (hybridSearchLimit options),
                        threshold = None, filterExpr = filterOpt\<rparr>))
      in if sv_indices sq = [] \<or> sv_values sq = []
            \<or> length (sv_indices sq) \<noteq> length (sv_values sq)
         then fallback
         else if list_ex (\<lambda>v. v \<le> 0) (sv_values sq) then fallback
         else
           (case points_query client
                   \<lparr>qp_collectionName = collectionName,
                    qp_prefetch =
                      [\<lparr>pf_query = DenseInput denseQuery, pf_using = ''dense'',
                        pf_limit = prefetchLimit denseQueryReq\<rparr>,
                       \<lparr>pf_query = SparseInput (sv_indices sq) (sv_values sq),
                        pf_using = ''sparse'',
                        pf_limit = prefetchLimit textQueryReq\<rparr>],
                    qp_limit = hybridSearchLimit options,
                    qp_filter = requestFilter filterOpt\<rparr> of
              Inl err \<Rightarrow> Inl err
            | Inr results \<Rightarrow>
                Inr (map (\<lambda>result.
                            \<lparr>hres_document = pointToDocument [] result,
                             hres_score = pt_score result\<rparr>) results)))"

definition hybridSearch_qdrant ::
  "qdrant_client \<Rightarrow> SimpleBM25 \<Rightarrow> string \<Rightarrow> HybridSearchRequest list
     \<Rightarrow> HybridSearchOptions option \<Rightarrow> qdrant_error + HybridSearchResult list" where
  "hybridSearch_qdrant client bm25 collectionName searchRequests options =
     (case (find (\<lambda>req. isArrayData (req_data req)) searchRequests,
            find (\<lambda>req. isStringData (req_data req)) searchRequests) of
        (Some denseQueryReq, Some textQueryReq) \<Rightarrow>
          (case (req_data denseQueryReq, req_data textQueryReq) of
             (DenseData denseQuery, TextData textQuery) \<Rightarrow>
               (case sparseQuery bm25 textQuery of
                  Inl err \<Rightarrow> Inl (SparseGeneration err)
                | Inr sq \<Rightarrow>
                    hybridSearchWithSparseQuery client collectionName denseQueryReq
                      textQueryReq denseQuery sq options)
           | _ \<Rightarrow> Inl MissingRequests)
      | _ \<Rightarrow> Inl MissingRequests)"






section \<open>Facts about insertion-ordered maps\<close>

lemma map_get_map_set_same: "map_get (map_set m k v) k = Some v"
  by (induction m) (auto simp: map_get_def)

lemma map_get_map_set_other: "k' \<noteq> k \<Longrightarrow> map_get (map_set m k v) k' = map_get m k'"
  by (induction m) (auto simp: map_get_def)

lemma map_keys_map_delete: "k \<notin> set (map_keys (map_delete m k))"
  by (auto simp: map_keys_def map_delete_def)

lemma map_get_map_delete_same: "map_get (map_delete m k) k = None"
  by (induction m) (auto simp: map_get_def map_delete_def)



section \<open>Registry freshness\<close>

text \<open>
  Claim C8. Immediately after \<^verbatim>\<open>setCodebaseIndexed(p, s)\<close>, whatever the registry held
  before, the list of indexed codebases contains \<open>p\<close>, the info for \<open>p\<close> is the indexed
  entry with the files, chunks and completion status of \<open>s\<close>, and \<open>p\<close> is neither in the
  indexing list nor has an indexing progress. The reads answer from memory, so they give
  the same answers before and after the snapshot is saved.
\<close>

theorem setCodebaseIndexed_in_memory_fresh:
  "(let m' = setCodebaseIndexed now p s m
    in p \<in> set (getIndexedCodebases m')
       \<and> getCodebaseInfo m' p =
           Some (CodebaseInfoIndexed (indexedFiles s) (totalChunks s) (status s) now)
       \<and> getCodebaseStatus m' p = indexed
       \<and> p \<notin> set (getIndexingCodebases m')
       \<and> getIndexingProgress m' p = None
       \<and> getIndexedCodebases (saveCodebaseSnapshot m') = getIndexedCodebases m'
       \<and> getCodebaseInfo (saveCodebaseSnapshot m') p = getCodebaseInfo m' p
       \<and> getIndexingCodebases (saveCodebaseSnapshot m') = getIndexingCodebases m')"
  by (simp add: Let_def setCodebaseIndexed_def getIndexedCodebases_def getCodebaseInfo_def
      getCodebaseStatus_def getIndexingCodebases_def getIndexingProgress_def
      saveCodebaseSnapshot_def map_get_map_set_same map_keys_map_delete
      map_get_map_delete_same)

text \<open>
  The scenario of the race-condition test: a codebase at 50 percent is set indexed with
  10 files and 100 chunks, and is read back at once.
\<close>

theorem setCodebaseIndexed_in_memory_fresh_witness:
  "(let m' = setCodebaseIndexed ''t1'' ''/test/project''
               \<lparr>indexedFiles = 10, totalChunks = 100, status = completed\<rparr>
               (setCodebaseIndexing ''t0'' ''/test/project'' 50 new_FakeSnapshotManager)
    in ''/test/project'' \<in> set (getIndexedCodebases m')
       \<and> getCodebaseInfo m' ''/test/project'' =
            Some (CodebaseInfoIndexed 10 100 completed ''t1'')
       \<and> ''/test/project'' \<notin> set (getIndexingCodebases m'))"
  using setCodebaseIndexed_in_memory_fresh
    [of "''t1''" "''/test/project''"
        "\<lparr>indexedFiles = 10, totalChunks = 100, status = completed\<rparr>"
        "setCodebaseIndexing ''t0'' ''/test/project'' 50 new_FakeSnapshotManager"]
  by (simp add: Let_def)


section \<open>BM25: emitted values are positive\<close>

lemma epsilon_pos: "0 < epsilon"
  by (simp add: epsilon_def)

lemma ensurePositive_pos:
  assumes "v \<in> set (ensurePositive vals)"
  shows "0 < v"
proof (cases "vals \<noteq> [] \<and> min_list vals \<le> 0")
  case True
  then obtain w where w: "w \<in> set vals" "v = w + (- min_list vals + epsilon)"
    using assms by (auto simp: ensurePositive_def)
  have "min_list vals \<le> w"
    using True w(1) by (simp add: min_list_Min)
  then show ?thesis
    using w(2) epsilon_pos by linarith
next
  case False
  then have v: "v \<in> set vals" and ne: "vals \<noteq> []" and "0 < min_list vals"
    using assms by (auto simp: ensurePositive_def)
  then have "min_list vals \<le> v"
    by (simp add: min_list_Min)
  then show ?thesis
    using \<open>0 < min_list vals\<close> by linarith
qed

lemma sum_list_squares_pos:
  assumes "vals \<noteq> []" and "\<forall>v \<in> set vals. 0 < (v::real)"
  shows "0 < sum_list (map (\<lambda>val. val * val) vals)"
  using assms
proof (induction vals)
  case Nil
  then show ?case by simp
next
  case (Cons a vals)
  have "0 < a * a" using Cons.prems by simp
  moreover have "0 \<le> sum_list (map (\<lambda>val. val * val) vals)"
    by (rule sum_list_nonneg) auto
  ultimately show ?case by simp
qed

lemma normalizeValues_pos:
  assumes "\<forall>v \<in> set vals. 0 < v" and "v \<in> set (normalizeValues n vals)"
  shows "0 < v"
proof (cases "n = Some True \<and> vals \<noteq> []")
  case True
  then obtain w where w: "w \<in> set vals"
    "v = w / sqrt (sum_list (map (\<lambda>val. val * val) vals))"
    using assms(2) by (auto simp: normalizeValues_def)
  have "0 < sqrt (sum_list (map (\<lambda>val. val * val) vals))"
    using sum_list_squares_pos[OF _ assms(1)] True by simp
  then show ?thesis
    using w assms(1) by simp
next
  case False
  then show ?thesis
    using assms by (auto simp: normalizeValues_def)
qed

lemma length_ensurePositive: "length (ensurePositive vals) = length vals"
  by (simp add: ensurePositive_def)

lemma length_normalizeValues: "length (normalizeValues n vals) = length vals"
  by (simp add: normalizeValues_def)

lemma learn_trained: "learn m docs = Inr m' \<Longrightarrow> trained m'"
  by (auto simp: learn_def Let_def split: if_splits)

lemmas tokenize_defs =
  tokenize_def toLowerCase_def toLowerChar_def isWordChar_def isSpaceChar_def


lemma example_model_sel:
  "vocabulary example_model = [(''aa'', 0), (''bb'', 1), (''cc'', 2)]"
  "idf example_model = [(''aa'', ln (1 / 7)), (''bb'', ln (5 / 3)), (''cc'', ln (5 / 3))]"
  "trained example_model"
  by (simp_all add: example_model_def)

lemma set_map_set_subset: "set (map_set m k v) \<subseteq> insert (k, v) (set m)"
  by (induction m) (auto split: if_splits)

lemma calculateTermFrequency_pos:
  assumes "(t, n) \<in> set (calculateTermFrequency tokens)"
  shows "0 < n"
proof -
  have "\<forall>e \<in> set (fold (\<lambda>token termFreq.
             map_set termFreq token
               ((case map_get termFreq token of None \<Rightarrow> 0 | Some n \<Rightarrow> n) + 1)) tokens acc).
          0 < snd e"
    if "\<forall>e \<in> set acc. 0 < snd e" for acc :: "(string, nat) jsmap"
    using that
  proof (induction tokens arbitrary: acc)
    case Nil
    then show ?case by simp
  next
    case (Cons token tokens)
    have "\<forall>e \<in> set (map_set acc token
             ((case map_get acc token of None \<Rightarrow> 0 | Some n \<Rightarrow> n) + 1)). 0 < snd e"
      using Cons.prems set_map_set_subset[of acc token] by fastforce
    from Cons.IH[OF this] show ?case by simp
  qed
  from this[of "[]"] assms show ?thesis
    by (fastforce simp: calculateTermFrequency_def)
qed

lemma bm25Denominator_pos:
  assumes "0 \<le> k1 m" and "0 \<le> b_param m" and "b_param m \<le> 1" and "0 < avgDocLength m"
    and "0 < tf"
  shows "0 < bm25Denominator m docLength tf"
proof -
  have "0 \<le> (b_param m * real docLength) / avgDocLength m"
    using assms(2,4) by simp
  hence "0 \<le> k1 m * (1 - b_param m + (b_param m * real docLength) / avgDocLength m)"
    using assms(1,3) by simp
  thus ?thesis
    using assms(5) unfolding bm25Denominator_def by linarith
qed

text \<open>
  Claim C6 says that every value of every generated vector is greater than 0, whatever
  the trained model. In the model with \<^verbatim>\<open>k1 = -1\<close> and \<^verbatim>\<open>b = 0\<close> the text \<^verbatim>\<open>bb\<close> has
  one term, of frequency 1, which is in the vocabulary and is given a weight; the
  numerator \<open>tf * (k1 + 1)\<close> and the denominator of the normalised term frequency in
  that weight are both 0. The program's
  quotient \<^verbatim>\<open>0 / 0\<close> is \<^verbatim>\<open>NaN\<close>, and so is the weight; the minimum of the values is
  \<^verbatim>\<open>NaN\<close>, the test \<^verbatim>\<open>minValue <= 0\<close> is false, nothing is shifted, and the value
  that \<^verbatim>\<open>generate\<close> emits is \<^verbatim>\<open>NaN\<close>, which is not greater than 0.
\<close>

theorem generate_zero_division_counterexample:
  "trained degenerate_model
   \<and> calculateTermFrequency (tokenize degenerate_model ''bb'') = [(''bb'', 1)]
   \<and> map_get (vocabulary degenerate_model) ''bb'' = Some 1
   \<and> map_get (idf degenerate_model) ''bb'' = Some (ln (5 / 3))
   \<and> scoreTerms degenerate_model None (length (tokenize degenerate_model ''bb''))
         (calculateTermFrequency (tokenize degenerate_model ''bb''))
       = [(1, bm25Score degenerate_model 1 1 (ln (5 / 3)))]
   \<and> real 1 * (k1 degenerate_model + 1) = 0
   \<and> bm25Denominator degenerate_model 1 1 = 0"
  by (simp add: degenerate_model_def example_model_def tokenize_defs calculateTermFrequency_def
      map_get_def bm25Denominator_def scoreTerms_def)

text \<open>
  Claim C6, as amended. For a trained model with \<open>k1 \<ge> 0\<close>, \<open>0 \<le> b \<le> 1\<close> and a
  positive average document length, whatever the text and the generation configuration
  (\<^verbatim>\<open>minScore\<close>, \<^verbatim>\<open>maxTerms\<close>, \<^verbatim>\<open>normalize\<close>, or no configuration at all):
  \<open>generate\<close> returns a sparse vector, every value of it is strictly greater than 0,
  it has as many indices as values, and the denominator of the weight of every term of
  the text is positive, so that no weight is a division by zero. Numbers are real
  numbers here: the rounding of floating-point arithmetic is not part of the model.
\<close>

theorem generate_values_positive:
  assumes "trained m" and "0 \<le> k1 m" and "0 \<le> b_param m" and "b_param m \<le> 1"
    and "0 < avgDocLength m"
  shows "\<exists>sv. generate m text config = Inr sv
            \<and> (\<forall>v \<in> set (sv_values sv). 0 < v)
            \<and> length (sv_indices sv) = length (sv_values sv)
            \<and> (\<forall>e \<in> set (calculateTermFrequency (tokenize m text)).
                  0 < bm25Denominator m (length (tokenize m text)) (snd e))"
proof -
  have den: "\<forall>e \<in> set (calculateTermFrequency (tokenize m text)).
                  0 < bm25Denominator m (length (tokenize m text)) (snd e)"
  proof
    fix e assume "e \<in> set (calculateTermFrequency (tokenize m text))"
    hence "0 < snd e" using calculateTermFrequency_pos[of "fst e" "snd e"] by simp
    thus "0 < bm25Denominator m (length (tokenize m text)) (snd e)"
      by (rule bm25Denominator_pos[OF assms(2-5)])
  qed
  show ?thesis
    using assms(1) den
    by (auto simp: generate_def Let_def length_ensurePositive length_normalizeValues
        intro: normalizeValues_pos ensurePositive_pos)
qed

text \<open>
  The model learnt from the example corpus gives \<^verbatim>\<open>aa\<close> a negative weight, so the
  text \<^verbatim>\<open>aa bb\<close> goes through the shift.
\<close>

theorem generate_values_positive_witness:
  "trained example_model
   \<and> 0 \<le> k1 example_model \<and> 0 \<le> b_param example_model \<and> b_param example_model \<le> 1
   \<and> 0 < avgDocLength example_model
   \<and> (\<exists>sv. generate example_model ''aa bb'' None = Inr sv
          \<and> list_all (\<lambda>v. 0 < v) (sv_values sv)
          \<and> length (sv_indices sv) = length (sv_values sv))
   \<and> list_all (\<lambda>e. 0 < bm25Denominator example_model
                           (length (tokenize example_model ''aa bb'')) (snd e))
         (calculateTermFrequency (tokenize example_model ''aa bb''))"
proof -
  have p: "0 \<le> k1 example_model" "0 \<le> b_param example_model" "b_param example_model \<le> 1"
    "0 < avgDocLength example_model"
    by (simp_all add: example_model_def)
  show ?thesis
    using generate_values_positive[OF example_model_sel(3) p, of "''aa bb''" None]
      example_model_sel(3) p
    by (auto simp: list_all_iff)
qed


section \<open>BM25: the filters come before the shift\<close>

















section \<open>The Gemini embedder: retry policy\<close>















section \<open>The local store: query, insert and delete\<close>





lemma rowToResult_id:
  "rowToResult (selectRow hybrid [''id''] r) [''id''] = [(''id'', SqlText (col_id r))]"
  by (simp add: rowToResult_def selectRow_def mapFieldName_def column_value_def)

lemma query_libsql_ids:
  assumes "store name = Some c"
  shows "query_libsql eng store name [] [''id''] lmt
       = (Inr (map (\<lambda>r. [(''id'', SqlText (col_id r))])
                (sql_limit (case lmt of None \<Rightarrow> 100 | Some l \<Rightarrow> if l = 0 then 100 else l)
                   (documents c))), False)"
  using assms
  by (simp add: query_libsql_def getClient_def Let_def rowToResult_id mapFieldName_def
      table_columns_def)




lemma documents_numberedCollection:
  "documents (numberedCollection n) = map (\<lambda>i. documentToRow (numberedDocument i)) [0..<n]"
  by (simp add: numberedCollection_def updateDocumentCount_def)


lemma col_id_numbered: "col_id (documentToRow (numberedDocument i)) = numberedId i"
  by (simp add: documentToRow_def numberedDocument_def)















section \<open>Facts about stable sorting, sets and maps\<close>









lemma set_newSet: "set (newSet xs) = set xs"
proof -
  have "set (fold (\<lambda>x acc. if x \<in> set acc then acc else acc @ [x]) xs acc) = set acc \<union> set xs"
    for acc
    by (induction xs arbitrary: acc) auto
  then show ?thesis by (simp add: newSet_def)
qed





















section \<open>The local store: dense search\<close>

lemma concat_map_if_singleton:
  "concat (map (\<lambda>x. if P x then [] else [h x]) xs) = map h (filter (\<lambda>x. \<not> P x) xs)"
  by (induction xs) auto

lemma score_antitone:
  fixes d d' :: real
  assumes "0 \<le> d" and "d \<le> d'"
  shows "1 / (1 + d') \<le> 1 / (1 + d)"
  using assms by (simp add: frac_le)

lemma score_range:
  fixes d :: real
  assumes "0 \<le> d"
  shows "0 < 1 / (1 + d)" and "1 / (1 + d) \<le> 1"
  using assms by simp_all

lemma sorted_searchStatement: "sorted (map snd (searchStatement eng c q n keep))"
proof -
  have "sorted_wrt (\<lambda>x y. snd x \<le> snd y) (sort_key snd xs)"
    for xs :: "(document_row \<times> real) list"
    using sorted_sort_key[of snd xs] by (simp only: sorted_map)
  then have "sorted_wrt (\<lambda>x y. snd x \<le> snd y) (searchStatement eng c q n keep)"
    unfolding searchStatement_def by (rule sorted_wrt_take)
  then show ?thesis by (simp only: sorted_map)
qed

lemma set_searchStatement:
  assumes "(r, d) \<in> set (searchStatement eng c q n keep)"
  shows "r \<in> set (vector_top_k eng (documents c) q (n * 2))
       \<and> d = vector_distance_cos eng (col_dense_vector r) q \<and> keep r"
  using assms unfolding searchStatement_def
  by (auto dest!: in_set_takeD)

lemma getClient_Some: "store name = Some c \<Longrightarrow> getClient store name = Inr c"
  by (simp add: getClient_def)

lemma search_libsql_results:
  assumes "getClient store name = Inr c"
  shows "search_libsql eng store name q options
       = (case searchSelection eng options of
            None \<Rightarrow> Inl (SqlError ''where clause'')
          | Some keep \<Rightarrow>
              Inr (map (\<lambda>(r, d). \<lparr>res_document = rowToDocument r, res_score = 1 / (1 + d)\<rparr>)
                     (filter (\<lambda>(r, d). \<not> belowThreshold options (1 / (1 + d)))
                        (searchStatement eng c q (searchTopK options) keep))))"
proof -
  have fn: "(\<lambda>(r, distance).
               (let score = 1 / (1 + distance)
                in if belowThreshold options score then []
                   else [\<lparr>res_document = rowToDocument r, res_score = score\<rparr>]))
      = (\<lambda>x. if (case x of (r, d) \<Rightarrow> belowThreshold options (1 / (1 + d))) then []
              else [(case x of (r, d) \<Rightarrow>
                       \<lparr>res_document = rowToDocument r, res_score = 1 / (1 + d)\<rparr>)])"
    by (auto simp: fun_eq_iff Let_def)
  have neg: "(\<lambda>x. \<not> (case x of (r, d) \<Rightarrow> belowThreshold options (1 / (1 + d))))
      = (\<lambda>(r, d). \<not> belowThreshold options (1 / (1 + d)))"
    by (auto simp: fun_eq_iff)
  show ?thesis
    using assms
    unfolding search_libsql_def fn concat_map_if_singleton neg
    by (auto split: option.splits)
qed

text \<open>
  Claim C5. For a search that succeeds on an engine whose cosine distances to the query
  vector are not negative: the results are the rows that the statement returned in
  ascending distance, each with the score \<open>1 / (1 + distance)\<close>, so the scores are in
  descending order, every score is greater than 0 and at most 1, and a smaller distance
  gives a greater or equal score; there are at most \<^verbatim>\<open>topK\<close> results; and when a
  threshold is given the results are those of the same search without threshold from
  which every result with a score below the threshold is removed.
\<close>

theorem search_libsql_descending_scores:
  assumes "store name = Some c"
    and "search_libsql eng store name q options = Inr results"
    and "\<forall>n. \<forall>r \<in> set (vector_top_k eng (documents c) q n).
           0 \<le> vector_distance_cos eng (col_dense_vector r) q"
  shows "\<exists>ranked.
      results = map (\<lambda>(r, d). \<lparr>res_document = rowToDocument r, res_score = 1 / (1 + d)\<rparr>) ranked
    \<and> (\<forall>(r, d) \<in> set ranked. d = vector_distance_cos eng (col_dense_vector r) q \<and> 0 \<le> d)
    \<and> sorted (map snd ranked)
    \<and> sorted_wrt (\<lambda>x y. res_score y \<le> res_score x) results
    \<and> (\<forall>x \<in> set results. 0 < res_score x \<and> res_score x \<le> 1)
    \<and> (\<forall>x \<in> set results. \<not> belowThreshold options (res_score x))
    \<and> length results \<le> searchTopK options
    \<and> (\<forall>opts t. options = Some opts \<and> threshold opts = Some t \<longrightarrow>
          (\<exists>unfiltered.
             search_libsql eng store name q (Some (opts\<lparr>threshold := None\<rparr>)) = Inr unfiltered
             \<and> results = filter (\<lambda>x. \<not> res_score x < t) unfiltered))"
proof -
  let ?mk = "\<lambda>(r, d). \<lparr>res_document = rowToDocument r, res_score = 1 / (1 + d)\<rparr>"
  have gc: "getClient store name = Inr c"
    using assms(1) by (rule getClient_Some)
  obtain keep where sel: "searchSelection eng options = Some keep"
    using assms(2) by (auto simp: search_libsql_results[OF gc] split: option.splits)
  define L where "L = searchStatement eng c q (searchTopK options) keep"
  define ranked where "ranked = filter (\<lambda>(r, d). \<not> belowThreshold options (1 / (1 + d))) L"
  have res: "results = map ?mk ranked"
    using assms(2) sel by (simp add: search_libsql_results[OF gc] ranked_def L_def)
  have inL: "d = vector_distance_cos eng (col_dense_vector r) q \<and> 0 \<le> d"
    if "(r, d) \<in> set L" for r d
    using set_searchStatement[of r d eng c q "searchTopK options" keep] that assms(3)
    unfolding L_def by blast
  have dist: "\<forall>(r, d) \<in> set ranked. d = vector_distance_cos eng (col_dense_vector r) q \<and> 0 \<le> d"
    using inL by (auto simp: ranked_def)
  have sortedL: "sorted (map snd L)"
    unfolding L_def by (rule sorted_searchStatement)
  have sortedR: "sorted (map snd ranked)"
    using sortedL unfolding ranked_def sorted_map by (rule sorted_wrt_filter)
  have desc: "sorted_wrt (\<lambda>x y. res_score y \<le> res_score x) results"
  proof -
    have "sorted_wrt (\<lambda>x y. snd x \<le> snd y) ranked"
      using sortedR by (simp only: sorted_map)
    then have "sorted_wrt (\<lambda>x y. res_score (?mk y) \<le> res_score (?mk x)) ranked"
    proof (rule sorted_wrt_mono_rel[rotated])
      fix x y
      assume x: "x \<in> set ranked" and y: "y \<in> set ranked" and le: "snd x \<le> snd y"
      have "0 \<le> snd x" using dist x by (cases x) auto
      then show "res_score (?mk y) \<le> res_score (?mk x)"
        using le score_antitone[of "snd x" "snd y"] by (cases x; cases y) simp
    qed
    then show ?thesis
      unfolding res by (simp add: sorted_wrt_map)
  qed
  have range: "\<forall>x \<in> set results. 0 < res_score x \<and> res_score x \<le> 1"
    unfolding res using dist by (auto simp: score_range)
  have thr: "\<forall>x \<in> set results. \<not> belowThreshold options (res_score x)"
    unfolding res ranked_def by auto
  have len: "length results \<le> searchTopK options"
  proof -
    have "length results \<le> length L"
      unfolding res ranked_def by simp
    also have "length L \<le> searchTopK options"
      unfolding L_def searchStatement_def by simp
    finally show ?thesis .
  qed
  have after: "\<forall>opts t. options = Some opts \<and> threshold opts = Some t \<longrightarrow>
          (\<exists>unfiltered.
             search_libsql eng store name q (Some (opts\<lparr>threshold := None\<rparr>)) = Inr unfiltered
             \<and> results = filter (\<lambda>x. \<not> res_score x < t) unfiltered)"
  proof (intro allI impI)
    fix opts t
    assume o: "options = Some opts \<and> threshold opts = Some t"
    have sel': "searchSelection eng (Some (opts\<lparr>threshold := None\<rparr>)) = Some keep"
      using sel o by (simp add: searchSelection_def)
    have topk: "searchTopK (Some (opts\<lparr>threshold := None\<rparr>)) = searchTopK options"
      using o by (simp add: searchTopK_def)
    have nb: "belowThreshold (Some (opts\<lparr>threshold := None\<rparr>)) s = False" for s
      by (simp add: belowThreshold_def)
    have un: "search_libsql eng store name q (Some (opts\<lparr>threshold := None\<rparr>)) = Inr (map ?mk L)"
      by (simp add: search_libsql_results[OF gc] sel' topk nb L_def)
    have "results = filter (\<lambda>x. \<not> res_score x < t) (map ?mk L)"
      unfolding res ranked_def filter_map using o
      by (auto simp: belowThreshold_def comp_def intro!: arg_cong[where f="map ?mk"] filter_cong)
    then show "\<exists>unfiltered.
             search_libsql eng store name q (Some (opts\<lparr>threshold := None\<rparr>)) = Inr unfiltered
             \<and> results = filter (\<lambda>x. \<not> res_score x < t) unfiltered"
      using un by blast
  qed
  show ?thesis
    apply (rule exI[of _ ranked])
    apply (intro conjI)
           apply (rule res)
          apply (rule dist)
         apply (rule sortedR)
        apply (rule desc)
       apply (rule range)
      apply (rule thr)
     apply (rule len)
    apply (rule after)
    done
qed



section \<open>The local store: hybrid search and reciprocal rank fusion\<close>

















section \<open>The example hybrid collection\<close>

lemma cosineDistance_examples:
  "cosineDistance [0, 1] [1, 0] = 1" "cosineDistance [1, 0] [1, 0] = 0"
  "cosineDistance [0, 1] [0, 1] = 0" "cosineDistance [1, 0] [0, 1] = 1"
  by (simp_all add: cosineDistance_def)

lemma example_rows:
  "col_id row_a = ''a''" "col_id row_b = ''b''"
  "col_dense_vector row_a = [0, 1]" "col_dense_vector row_b = [1, 0]"
  "col_sparse_indices row_a = Some [1, 2]" "col_sparse_values row_a = Some [2, 1]"
  "col_sparse_indices row_b = Some [1, 2]" "col_sparse_values row_b = Some [1, 2]"
  by (simp_all add: row_a_def row_b_def)

lemma example_hybrid_sel:
  "documents example_hybrid_collection = [row_a, row_b]"
  "isHybrid (coll_metadata example_hybrid_collection)"
  "bm25Generator example_hybrid_collection = Some example_model"
  "example_hybrid_store ''h'' = Some example_hybrid_collection"
  by (simp_all add: example_hybrid_collection_def example_hybrid_store_def)

lemma example_engine_sel:
  "vector_distance_cos example_engine = cosineDistance"
  "vector_top_k example_engine rows q k
     = take k (sort_key (\<lambda>r. cosineDistance (col_dense_vector r) q) rows)"
  by (simp_all add: example_engine_def)















lemma example_engine_top_k_subset:
  "set (vector_top_k example_engine rows q n) \<subseteq> set rows"
  by (auto simp: example_engine_sel dest: in_set_takeD)


lemma example_search:
  "search_libsql example_engine example_hybrid_store ''h'' [1, 0] None
     = Inr [\<lparr>res_document = rowToDocument row_b, res_score = 1\<rparr>,
            \<lparr>res_document = rowToDocument row_a, res_score = 1 / 2\<rparr>]"
proof -
  have gc: "getClient example_hybrid_store ''h'' = Inr example_hybrid_collection"
    by (simp add: getClient_def example_hybrid_sel)
  show ?thesis
    by (simp add: search_libsql_results[OF gc] searchSelection_def searchTopK_def
        belowThreshold_def searchStatement_def example_engine_sel example_hybrid_sel
        example_rows cosineDistance_examples)
qed

text \<open>Claim C5 at a dense search of the example collection.\<close>

theorem search_libsql_descending_scores_witness:
  "example_hybrid_store ''h'' = Some example_hybrid_collection
   \<and> search_libsql example_engine example_hybrid_store ''h'' [1, 0] None
       = Inr [\<lparr>res_document = rowToDocument row_b, res_score = 1\<rparr>,
              \<lparr>res_document = rowToDocument row_a, res_score = 1 / 2\<rparr>]
   \<and> list_all (\<lambda>r. 0 \<le> vector_distance_cos example_engine (col_dense_vector r) [1, 0])
         (documents example_hybrid_collection)
   \<and> sorted_wrt (\<lambda>x y. res_score y \<le> res_score x)
         [\<lparr>res_document = rowToDocument row_b, res_score = 1\<rparr>,
          \<lparr>res_document = rowToDocument row_a, res_score = 1 / 2\<rparr>]
   \<and> length [\<lparr>res_document = rowToDocument row_b, res_score = 1\<rparr>,
              \<lparr>res_document = rowToDocument row_a, res_score = 1 / 2\<rparr>] \<le> searchTopK None"
proof -
  have d: "list_all (\<lambda>r. 0 \<le> vector_distance_cos example_engine (col_dense_vector r) [1, 0])
         (documents example_hybrid_collection)"
    by (simp add: example_engine_sel example_hybrid_sel example_rows cosineDistance_examples)
  have h3: "\<forall>n. \<forall>r \<in> set (vector_top_k example_engine (documents example_hybrid_collection)
                             [1, 0] n).
           0 \<le> vector_distance_cos example_engine (col_dense_vector r) [1, 0]"
    using d example_engine_top_k_subset[of "documents example_hybrid_collection" "[1, 0]"]
    by (auto simp: list_all_iff)
  show ?thesis
    using search_libsql_descending_scores[OF example_hybrid_sel(4) example_search h3]
      example_hybrid_sel(4) example_search d
    by blast
qed

subsection \<open>Falling back to the dense search\<close>

lemma sparseQuery_untrained:
  "\<not> isTrained bm25 \<Longrightarrow> sparseQuery bm25 t = Inr \<lparr>sv_indices = [], sv_values = []\<rparr>"
  by (simp add: sparseQuery_def)

lemma hybridSearch_qdrant_fallback:
  assumes "find (\<lambda>req. isArrayData (req_data req)) requests = Some denseReq"
    and "req_data denseReq = DenseData v"
    and "find (\<lambda>req. isStringData (req_data req)) requests = Some textReq"
    and "req_data textReq = TextData t"
    and "sparseQuery bm25 t = Inr sq"
    and "sv_indices sq = [] \<or> sv_values sq = [] \<or> length (sv_indices sq) \<noteq> length (sv_values sq)
         \<or> list_ex (\<lambda>x. x \<le> 0) (sv_values sq)"
  shows "hybridSearch_qdrant client bm25 name requests options
       = map_sum id (map asHybridSearchResult)
           (search_qdrant client name v
              (Some \<lparr>topK = (case options of None \<Rightarrow> None | Some opts \<Rightarrow> hs_limit opts),
                     threshold = None,
                     filterExpr = (case options of None \<Rightarrow> None | Some opts \<Rightarrow> hs_filterExpr opts)\<rparr>))"
proof -
  have limit: "searchTopK (Some \<lparr>topK = Some (hybridSearchLimit options), threshold = None, filterExpr = fe\<rparr>)
      = searchTopK (Some \<lparr>topK = (case options of None \<Rightarrow> None | Some opts \<Rightarrow> hs_limit opts),
                          threshold = None, filterExpr = fe\<rparr>)" for fe
    by (simp add: searchTopK_def hybridSearchLimit_def split: option.splits)
  have same: "search_qdrant client name v
                (Some \<lparr>topK = Some (hybridSearchLimit options), threshold = None, filterExpr = fe\<rparr>)
            = search_qdrant client name v
                (Some \<lparr>topK = (case options of None \<Rightarrow> None | Some opts \<Rightarrow> hs_limit opts),
                       threshold = None, filterExpr = fe\<rparr>)" for fe
    unfolding search_qdrant_def limit by simp
  show ?thesis
    using assms(6)
    by (auto simp: hybridSearch_qdrant_def hybridSearchWithSparseQuery_def assms(1-5) same
        Let_def)
qed

























subsection \<open>Filter expressions that the parser does not recognise\<close>

lemma parseFilterExpression_warned:
  assumes "snd (parseFilterExpression e)"
  shows "parseFilterExpression e = (e, True)"
  using assms by (auto simp: parseFilterExpression_def split: option.splits if_splits prod.splits)

lemma parseFilterExpression_qdrant_warned:
  assumes "snd (parseFilterExpression_qdrant e)"
  shows "parseFilterExpression_qdrant e = (None, True)"
  using assms
  by (auto simp: parseFilterExpression_qdrant_def split: option.splits if_splits prod.splits)

lemma trim_nonempty: "trim e \<noteq> [] \<Longrightarrow> e \<noteq> []"
  by (auto simp: trim_def)

lemma example_unrecognized:
  "parseFilterExpression ''startLine > 5'' = (''startLine > 5'', True)"
  "parseFilterExpression_qdrant ''startLine > 5'' = (None, True)"
  "trim ''startLine > 5'' = ''startLine > 5''"
  by (simp_all add: parseFilterExpression_def parseFilterExpression_qdrant_def trim_def
      isSpaceChar_def)

text \<open>
  Claim C1. A filter expression that the parser of a store does not recognise (the
  parser warns) and that is not blank:

  LibSQL store: \<open>query\<close> uses the expression itself as the \<^verbatim>\<open>WHERE\<close> clause of its
  statement. When the engine rejects that clause the call ends in the SQL error; when it
  accepts it, the rows are the rows that the clause keeps, not the rows of the call
  without a filter. \<open>search\<close> ends in the same error when the clause is rejected.

  Qdrant store: the parser returns no filter, so the request carries none and the
  results are those of the call without a filter.
\<close>

theorem unrecognized_filter_is_where_clause:
  assumes "store name = Some c" and "snd (parseFilterExpression e)" and "trim e \<noteq> []"
    and "list_all (\<lambda>f. mapFieldName f \<in> set (table_columns (isHybrid (coll_metadata c)))) flds"
  shows "query_libsql eng store name e flds lmt
       = (case where_clause eng e of
            None \<Rightarrow> (Inl (SqlError ''where clause''), True)
          | Some keep \<Rightarrow>
              (Inr (map (\<lambda>r. rowToResult (selectRow (isHybrid (coll_metadata c)) flds r) flds)
                      (sql_limit (case lmt of None \<Rightarrow> 100 | Some l \<Rightarrow> if l = 0 then 100 else l)
                         (filter keep (documents c)))), True))
     \<and> (where_clause eng e = None
        \<longrightarrow> search_libsql eng store name q
              (Some \<lparr>topK = k, threshold = th, filterExpr = Some e\<rparr>)
            = Inl (SqlError ''where clause''))
     \<and> (snd (parseFilterExpression_qdrant e) \<longrightarrow> requestFilter (Some e) = None)"
proof (intro conjI impI)
  have p: "parseFilterExpression e = (e, True)"
    by (rule parseFilterExpression_warned[OF assms(2)])
  have ne: "e \<noteq> []" by (rule trim_nonempty[OF assms(3)])
  show "query_libsql eng store name e flds lmt
       = (case where_clause eng e of
            None \<Rightarrow> (Inl (SqlError ''where clause''), True)
          | Some keep \<Rightarrow>
              (Inr (map (\<lambda>r. rowToResult (selectRow (isHybrid (coll_metadata c)) flds r) flds)
                      (sql_limit (case lmt of None \<Rightarrow> 100 | Some l \<Rightarrow> if l = 0 then 100 else l)
                         (filter keep (documents c)))), True))"
    using assms(1,3,4) ne
    by (simp add: query_libsql_def getClient_def Let_def p list_all_iff split: option.splits)
  show "search_libsql eng store name q (Some \<lparr>topK = k, threshold = th, filterExpr = Some e\<rparr>)
      = Inl (SqlError ''where clause'')"
    if "where_clause eng e = None"
    using that assms(1) ne
    by (simp add: search_libsql_def getClient_def searchSelection_def p)
  show "requestFilter (Some e) = None" if "snd (parseFilterExpression_qdrant e)"
    using parseFilterExpression_qdrant_warned[OF that] by (simp add: requestFilter_def)
qed

text \<open>
  Claim C1 at the filter \<^verbatim>\<open>startLine > 5\<close> on a collection of two documents, with an
  engine that rejects the clause (the table has no column \<^verbatim>\<open>startLine\<close>): the query
  with the filter ends in the error, whereas the query without a filter returns both
  rows.
\<close>

theorem unrecognized_filter_is_where_clause_witness:
  "parseFilterExpression ''startLine > 5'' = (''startLine > 5'', True)
   \<and> query_libsql example_engine (example_store(''c'' \<mapsto> numberedCollection 2)) ''c''
         ''startLine > 5'' [''id''] None
       = (Inl (SqlError ''where clause''), True)
   \<and> query_libsql example_engine (example_store(''c'' \<mapsto> numberedCollection 2)) ''c''
         [] [''id''] None
       = (Inr [[(''id'', SqlText (numberedId 0))], [(''id'', SqlText (numberedId 1))]], False)
   \<and> search_libsql example_engine (example_store(''c'' \<mapsto> numberedCollection 2)) ''c'' [1]
         (Some \<lparr>topK = None, threshold = None, filterExpr = Some ''startLine > 5''\<rparr>)
       = Inl (SqlError ''where clause'')
   \<and> requestFilter (Some ''startLine > 5'') = None"
proof -
  have unfiltered: "query_libsql example_engine (example_store(''c'' \<mapsto> numberedCollection 2))
         ''c'' [] [''id''] None
       = (Inr [[(''id'', SqlText (numberedId 0))], [(''id'', SqlText (numberedId 1))]], False)"
    by (simp add: query_libsql_ids sql_limit_def documents_numberedCollection col_id_numbered
        numeral_2_eq_2)
  have w: "where_clause example_engine ''startLine > 5'' = None"
    by (simp add: example_engine_def)
  have flds: "list_all (\<lambda>f. mapFieldName f
        \<in> set (table_columns (isHybrid (coll_metadata (numberedCollection 2))))) [''id'']"
    by (simp add: mapFieldName_def table_columns_def)
  have st: "(example_store(''c'' \<mapsto> numberedCollection 2)) ''c'' = Some (numberedCollection 2)"
    by simp
  have tr: "trim ''startLine > 5'' \<noteq> []" by (simp add: example_unrecognized)
  have warned: "snd (parseFilterExpression ''startLine > 5'')"
    by (simp add: example_unrecognized)
  have qwarned: "snd (parseFilterExpression_qdrant ''startLine > 5'')"
    by (simp add: example_unrecognized)
  from unrecognized_filter_is_where_clause[
      where store = "example_store(''c'' \<mapsto> numberedCollection 2)" and name = "''c''"
        and c = "numberedCollection 2" and e = "''startLine > 5''" and flds = "[''id'']"
        and eng = example_engine and lmt = None and q = "[1]" and k = None and th = None,
      OF st warned tr flds] w qwarned
  show ?thesis
    by (simp add: unfiltered example_unrecognized)
qed

end
